theory Spec2Isabelle
  imports Complex_Main "HOL-Library.Word" "HOL-Library.Signed_Division"
begin

section \<open>Images and disparity maps\<close>

text \<open>
  A \<open>cv::Mat\<close> as the two sample programs use it: a 2-D grid with \<open>rows\<close>, \<open>cols\<close>, an
  element type code (\<open>type()\<close>) and its samples in row-major order.  Input images carry
  natural-number samples; the disparity map of \<open>stereosgm_movie.cpp\<close> is \<open>CV_16S\<close>
  (a \<open>16 word\<close> read with \<open>sint\<close>), the file that is written is \<open>CV_16U\<close> (a \<open>16 word\<close>
  read with \<open>uint\<close>), a comparison mask is \<open>CV_8U\<close>.
\<close>

record 'a mat =
  rows :: int
  cols :: int
  mtype :: int
  mdata :: "'a list"

text \<open>The element type codes of OpenCV's \<open>core/hal/interface.h\<close> (single channel).\<close>

definition CV_8U :: int where "CV_8U = 0"
definition CV_16U :: int where "CV_16U = 2"
definition CV_16S :: int where "CV_16S = 3"

text \<open>\<open>Mat::empty()\<close>: no data, or no element.  \<open>cv::imread\<close> returns such a matrix when the
  file cannot be read.\<close>

definition empty_mat :: "'a mat \<Rightarrow> bool" where
  "empty_mat m = (mdata m = [] \<or> rows m * cols m = 0)"

text \<open>\<open>I1.size() == I2.size()\<close>: same width and height.\<close>

definition same_size :: "'a mat \<Rightarrow> 'b mat \<Rightarrow> bool" where
  "same_size a b = (cols a = cols b \<and> rows a = rows b)"

section \<open>The disparity encoder (stereosgm\_movie.cpp, lines 113 to 120)\<close>

text \<open>
  Modelled from the spec: \<open>cv::Mat::convertTo\<close>, the comparison \<open>Mat == scalar\<close> and
  \<open>cv::Mat::setTo\<close> are OpenCV functions, not under src/.  The spec (section 4.4) gives the
  conversion as input times the factor, clamped to the unsigned 16-bit representable range;
  this is OpenCV's \<open>saturate_cast<ushort>\<close>, which sends a value below 0 to 0 and a value
  above 65535 to 65535.  The product of a 16-bit sample and 100 is below \<open>2 ^ 24\<close> in
  absolute value, so the single-precision product OpenCV forms is the exact integer.
\<close>

definition saturate_cast_ushort :: "int \<Rightarrow> 16 word" where
  "saturate_cast_ushort v =
     (if 0 \<le> v \<and> v \<le> 65535 then word_of_int v else if v > 0 then 65535 else 0)"

text \<open>\<open>src.convertTo(dst, CV_16U, alpha)\<close> on a \<open>CV_16S\<close> matrix, for an integral \<open>alpha\<close>.\<close>

definition convertTo_16U :: "16 word mat \<Rightarrow> int \<Rightarrow> 16 word mat" where
  "convertTo_16U src alpha =
     \<lparr>rows = rows src, cols = cols src, mtype = CV_16U,
      mdata = map (\<lambda>d. saturate_cast_ushort (sint d * alpha)) (mdata src)\<rparr>"

text \<open>\<open>src == value\<close> on a \<open>CV_16S\<close> matrix and an \<open>int\<close>: a \<open>CV_8U\<close> mask, 255 where the
  sample equals the value and 0 elsewhere.\<close>

definition compare_eq :: "16 word mat \<Rightarrow> int \<Rightarrow> 8 word mat" where
  "compare_eq src v =
     \<lparr>rows = rows src, cols = cols src, mtype = CV_8U,
      mdata = map (\<lambda>d. if sint d = v then 255 else 0) (mdata src)\<rparr>"

text \<open>\<open>m.setTo(value, mask)\<close>: the samples whose mask element is non-zero become \<open>value\<close>.\<close>

definition setTo :: "'a mat \<Rightarrow> 'a \<Rightarrow> 8 word mat \<Rightarrow> 'a mat" where
  "setTo m v msk =
     m\<lparr>mdata := map2 (\<lambda>x k. if k \<noteq> 0 then v else x) (mdata m) (mdata msk)\<rparr>"

text \<open>Lines 113 to 120 of \<open>stereosgm_movie.cpp\<close>: scale by 100 into \<open>CV_16U\<close>, build the mask
  of the invalid disparity, set the masked samples to 0.\<close>

definition encode_disparity :: "16 word mat \<Rightarrow> int \<Rightarrow> 16 word mat" where
  "encode_disparity disparity invalid_disp =
     (let output_disparity = convertTo_16U disparity 100;
          msk = compare_eq disparity invalid_disp
      in setTo output_disparity 0 msk)"

section \<open>Collaborators of the two programs\<close>

text \<open>
  Both programs are a \<open>main\<close> that talks to the command-line parser, the image codec, the
  stereo engine, the device and the clock.  What these return is the environment of a run;
  what the program asks of them, in order, is the trace of the run.

  \<^item> \<open>has_help\<close>, \<open>check_ok\<close>: \<open>parser.has("help")\<close> and \<open>parser.check()\<close>;
    \<open>output_path\<close>, \<open>disp_size\<close>, \<open>start_number\<close>, \<open>total_number\<close>: the parsed options.
  \<^item> \<open>imread_L n\<close>, \<open>imread_R n\<close>: \<open>cv::imread(cv::format(image_format, n), IMREAD_UNCHANGED)\<close>
    for the left and the right format string; the files do not change during a run.
  \<^item> \<open>invalid_disparity\<close>: \<open>sgm.get_invalid_disparity()\<close>;
    \<open>sgm_execute\<close>: the disparity samples the engine leaves in the device buffer for the two
    uploaded images.
  \<^item> \<open>clock k\<close>: the reading of the \<open>k\<close>-th call of \<open>now()\<close>, in ticks of the clock;
    \<open>ticks_per_us\<close>: the ticks of one microsecond (the period of the clock is a choice of the
    C++ library).
  \<^item> \<open>imwrite\<close>: what \<open>cv::imwrite\<close> does with a path and an image.  The function returns a
    \<open>bool\<close>, true when the file was written, and may throw \<open>cv::Exception\<close>.
  \<^item> \<open>d_of_int\<close>, \<open>d_add\<close>, \<open>d_div\<close>: conversion to \<open>double\<close>, addition and division of
    \<open>double\<close>.  Floating point arithmetic is a parameter: the type \<open>'d\<close> stands for \<open>double\<close>.

  The options \<open>disp_size\<close>, \<open>start_number\<close> and \<open>total_number\<close>, the counter \<open>frame_no\<close>
  and the sizes \<open>width\<close>, \<open>height\<close>, \<open>src_bytes\<close> and \<open>dst_bytes\<close> are C \<open>int\<close>s: 32-bit words,
  read as signed with \<open>sint\<close>, whose sums and products wrap around.  What is handed to a
  collaborator or printed (a frame number, a size) is the signed value.  The counter \<open>i\<close> of
  the benchmark loop stays between 0 and 70 and is an integer.
\<close>

datatype write_result = Written | Not_written | Throws

record 'd env =
  has_help :: bool
  check_ok :: bool
  output_path :: string
  disp_size :: "32 word"
  start_number :: "32 word"
  total_number :: "32 word"
  imread_L :: "int \<Rightarrow> nat mat"
  imread_R :: "int \<Rightarrow> nat mat"
  invalid_disparity :: int
  sgm_execute :: "nat mat \<Rightarrow> nat mat \<Rightarrow> 16 word list"
  clock :: "nat \<Rightarrow> int"
  ticks_per_us :: int
  imwrite :: "string \<Rightarrow> 16 word mat \<Rightarrow> write_result"
  d_of_int :: "int \<Rightarrow> 'd"
  d_add :: "'d \<Rightarrow> 'd \<Rightarrow> 'd"
  d_div :: "'d \<Rightarrow> 'd \<Rightarrow> 'd"

datatype side = Left_image | Right_image

datatype buffer = d_I1 | d_I2 | d_disparity

text \<open>
  The events of a trace: the calls of the collaborators and the output statements of the
  two programs, in the order in which they are run.

  Modelled from the spec: the struct \<open>device_buffer\<close> of \<open>sample_common.h\<close>, which is not
  under src/.  By section 4.2 of the spec its construction allocates a block of device
  memory of the given number of bytes, and \<open>upload\<close> and \<open>download\<close> copy that many bytes to
  and from the block: the events \<open>Allocate\<close>, \<open>Upload\<close> and \<open>Download\<close>.
\<close>

datatype 'd event =
    Print_message \<comment> \<open>\<open>parser.printMessage()\<close>\<close>
  | Print_errors \<comment> \<open>\<open>parser.printErrors()\<close>\<close>
  | Imread side int \<comment> \<open>\<open>cv::imread\<close> of the left or right image of a frame\<close>
  | Cerr string \<comment> \<open>a line on \<open>std::cerr\<close>\<close>
  | Cout string \<comment> \<open>a line on \<open>std::cout\<close>\<close>
  | Construct_sgm int int int int int
      \<comment> \<open>\<open>sgm::StereoSGM sgm(width, height, disp_size, src_depth, dst_depth, ...)\<close>\<close>
  | Allocate buffer int \<comment> \<open>\<open>device_buffer b(bytes)\<close>, with the value of the \<open>int\<close> argument\<close>
  | Get_invalid_disparity
  | Upload buffer
  | Now int \<comment> \<open>a call of \<open>now()\<close> and its reading\<close>
  | Execute \<comment> \<open>\<open>sgm.execute(d_I1.data, d_I2.data, d_disparity.data)\<close>\<close>
  | Device_synchronize \<comment> \<open>\<open>cudaDeviceSynchronize()\<close>\<close>
  | Download buffer
  | Convert_to \<comment> \<open>\<open>disparity.convertTo(output_disparity, CV_16U, 100.0)\<close>\<close>
  | Compare_invalid \<comment> \<open>\<open>disparity == invalid_disp\<close>\<close>
  | Set_to \<comment> \<open>\<open>output_disparity.setTo(0, mask)\<close>\<close>
  | Imwrite string "16 word mat" \<comment> \<open>\<open>cv::imwrite(full_path, output_disparity)\<close>\<close>
  | Cout_saved int string nat 'd
      \<comment> \<open>the progress line: \<open>frame_no\<close>, \<open>full_path\<close>, the precision and \<open>fps\<close>\<close>
  | Cerr_error_saving int string \<comment> \<open>the line of the \<open>catch\<close> block: \<open>frame_no\<close>, \<open>full_path\<close>\<close>
  | Cout_finished int \<comment> \<open>the line printed before \<open>break\<close>: \<open>frame_no\<close>\<close>
  | Cout_average int nat 'd
      \<comment> \<open>the result line: \<open>MEASUREMENT_RUNS\<close>, the precision and \<open>average_time_ms\<close>\<close>

text \<open>How \<open>main\<close> ends: \<open>return\<close> or \<open>std::exit\<close>, with the status.\<close>

datatype status = Returned int | Exited int

definition EXIT_FAILURE :: int where "EXIT_FAILURE = 1"

record 'd state =
  trace :: "'d event list"
  clock_reads :: nat

definition initial_state :: "'d state" where
  "initial_state = \<lparr>trace = [], clock_reads = 0\<rparr>"

definition emit :: "'d event list \<Rightarrow> 'd state \<Rightarrow> 'd state" where
  "emit evs s = s\<lparr>trace := trace s @ evs\<rparr>"

definition now :: "'d env \<Rightarrow> 'd state \<Rightarrow> int \<times> 'd state" where
  "now e s =
     (clock e (clock_reads s),
      \<lparr>trace = trace s @ [Now (clock e (clock_reads s))], clock_reads = Suc (clock_reads s)\<rparr>)"

text \<open>\<open>duration_cast<microseconds>(t2 - t1).count()\<close>: the ticks as microseconds, truncated
  towards zero.\<close>

definition duration_cast_us :: "'d env \<Rightarrow> int \<Rightarrow> int" where
  "duration_cast_us e ticks = ticks sdiv ticks_per_us e"

text \<open>
  Modelled from the spec: the macro \<open>ASSERT_MSG\<close> of \<open>sample_common.h\<close>, which is not under
  src/.  By section 7 of the spec a failed validation is fatal: a diagnostic message, then
  the process ends with a non-zero status, and nothing that follows is run.
\<close>

definition ASSERT_MSG ::
  "bool \<Rightarrow> string \<Rightarrow> 'd state \<Rightarrow> ('d state \<Rightarrow> 'd state \<times> status) \<Rightarrow> 'd state \<times> status" where
  "ASSERT_MSG expr msg s rest =
     (if expr then rest s else (emit [Cerr msg] s, Exited EXIT_FAILURE))"

subsection \<open>Formatted output\<close>

definition digit_char :: "nat \<Rightarrow> char" where
  "digit_char d = ''0123456789'' ! d"

fun show_nat :: "nat \<Rightarrow> string" where
  "show_nat n = (if n < 10 then [digit_char n] else show_nat (n div 10) @ [digit_char (n mod 10)])"

declare show_nat.simps [simp del]

definition show_int :: "int \<Rightarrow> string" where
  "show_int i = (if i < 0 then CHR ''-'' # show_nat (nat (- i)) else show_nat (nat i))"

text \<open>\<open>std::setw(w)\<close> with \<open>std::setfill(c)\<close>: the text is padded on the left.\<close>

definition setw_setfill :: "nat \<Rightarrow> char \<Rightarrow> string \<Rightarrow> string" where
  "setw_setfill w c txt = replicate (w - length txt) c @ txt"

text \<open>Lines 123 to 128 of \<open>stereosgm_movie.cpp\<close>: the path of the file of a frame.\<close>

definition full_path :: "'d env \<Rightarrow> int \<Rightarrow> string" where
  "full_path e frame_no =
     (let filename = ''disparity_'' @ setw_setfill 4 (CHR ''0'') (show_int frame_no) @ ''.png''
      in output_path e @ ''/'' @ filename)"

text \<open>\<open>type2str\<close> of \<open>stereosgm_test_time.cpp\<close>, with OpenCV's \<open>CV_MAT_DEPTH_MASK = 7\<close> and
  \<open>CV_CN_SHIFT = 3\<close>; \<open>depth\<close> and \<open>chans\<close> are \<open>uchar\<close>.\<close>

definition type2str :: "int \<Rightarrow> string" where
  "type2str type =
     (let depth = (and type 7) mod 256;
          chans = (1 + drop_bit 3 type) mod 256;
          r = (if depth = 0 then ''8U''
               else if depth = 1 then ''8S''
               else if depth = 2 then ''16U''
               else if depth = 3 then ''16S''
               else if depth = 4 then ''32S''
               else if depth = 5 then ''32F''
               else if depth = 6 then ''64F''
               else ''User'')
      in r @ ''C'' @ show_int chans)"

section \<open>The batch runner (stereosgm\_movie.cpp)\<close>

datatype 'd step = Break "'d state" | Continue "'d state"

text \<open>The body of the loop, lines 89 to 138.  \<open>disparity0\<close> is the host matrix of line 83;
  the download of line 108 overwrites all of its samples.\<close>

definition movie_body :: "'d env \<Rightarrow> 16 word mat \<Rightarrow> int \<Rightarrow> 32 word \<Rightarrow> 'd state \<Rightarrow> 'd step" where
  "movie_body e disparity0 invalid_disp frame_no s0 =
     (let I1 = imread_L e (sint frame_no);
          I2 = imread_R e (sint frame_no);
          s1 = emit [Imread Left_image (sint frame_no), Imread Right_image (sint frame_no)] s0
      in if empty_mat I1 \<or> empty_mat I2 then Break (emit [Cout_finished (sint frame_no)] s1)
         else
           let s2 = emit [Upload d_I1, Upload d_I2] s1;
               (t1, s3) = now e s2;
               s4 = emit [Execute, Device_synchronize] s3;
               (t2, s5) = now e s4;
               duration = duration_cast_us e (t2 - t1);
               fps = d_div e (d_of_int e 1000000) (d_of_int e duration);
               s6 = emit [Download d_disparity] s5;
               disparity = disparity0\<lparr>mdata := sgm_execute e I1 I2\<rparr>;
               s7 = emit [Convert_to] s6;
               output_disparity = convertTo_16U disparity 100;
               s8 = emit [Compare_invalid] s7;
               msk = compare_eq disparity invalid_disp;
               s9 = emit [Set_to] s8;
               output_disparity = setTo output_disparity 0 msk;
               path = full_path e (sint frame_no);
               s10 = emit [Imwrite path output_disparity] s9
           in case imwrite e path output_disparity of
                Throws \<Rightarrow> Continue (emit [Cerr_error_saving (sint frame_no) path] s10)
              | _ \<Rightarrow> Continue (emit [Cout_saved (sint frame_no) path 2 fps] s10))"

text \<open>The loop of line 87:
  \<open>for (int frame_no = start_number; frame_no - start_number < total_number; frame_no++)\<close>.
  The difference and the increment wrap around; the comparison is signed.  The loop ends:
  the difference grows by one in each iteration and is below \<open>total_number\<close> when the
  counter is incremented.\<close>

function movie_loop :: "'d env \<Rightarrow> 16 word mat \<Rightarrow> int \<Rightarrow> 32 word \<Rightarrow> 'd state \<Rightarrow> 'd state" where
  "movie_loop e disparity0 invalid_disp frame_no s =
     (if sint (frame_no - start_number e) < sint (total_number e) then
        (case movie_body e disparity0 invalid_disp frame_no s of
           Break s' \<Rightarrow> s'
         | Continue s' \<Rightarrow> movie_loop e disparity0 invalid_disp (frame_no + 1) s')
      else s)"
  by pat_completeness auto
termination
proof (relation "measure (\<lambda>(e, m, d, frame_no, s).
        nat (sint (total_number e) - sint (frame_no - start_number e)))")
  show "wf (measure (\<lambda>(e :: 'd env, m :: 16 word mat, d :: int, frame_no, s :: 'd state).
        nat (sint (total_number e) - sint (frame_no - start_number e))))"
    by simp
next
  fix e :: "'d env" and disparity0 :: "16 word mat" and invalid_disp :: int
    and frame_no :: "32 word" and s x2 :: "'d state"
  assume below: "sint (frame_no - start_number e) < sint (total_number e)"
  let ?d = "frame_no - start_number e"
  have "sint (total_number e) < 2 ^ (LENGTH(32) - 1)" by (rule sint_lt)
  with below have upper: "sint ?d + 1 < 2 ^ 31" by simp
  have "- (2 ^ (LENGTH(32) - 1)) \<le> sint ?d" by (rule sint_ge)
  then have lower: "- (2 ^ 31) \<le> sint ?d + 1" by simp
  have "sint (?d + 1) = signed_take_bit (LENGTH(32) - 1) (sint ?d + sint (1 :: 32 word))"
    by (rule sint_word_add)
  also have "\<dots> = sint ?d + 1"
    using lower upper by (simp add: signed_take_bit_int_eq_self)
  finally have step: "sint (frame_no + 1 - start_number e) = sint ?d + 1"
    by (simp add: algebra_simps)
  with below show "((e, disparity0, invalid_disp, frame_no + 1, x2),
      (e, disparity0, invalid_disp, frame_no, s))
    \<in> measure (\<lambda>(e, m, d, frame_no, s).
        nat (sint (total_number e) - sint (frame_no - start_number e)))"
    by simp
qed

declare movie_loop.simps [simp del]

definition movie_main :: "'d env \<Rightarrow> 'd state \<times> status" where
  "movie_main e =
     (if has_help e then (emit [Print_message] initial_state, Returned 0)
      else if \<not> check_ok e then
        (emit [Print_errors, Print_message] initial_state, Exited EXIT_FAILURE)
      else
        let I1 = imread_L e (sint (start_number e));
            I2 = imread_R e (sint (start_number e));
            s0 = emit [Imread Left_image (sint (start_number e)),
                       Imread Right_image (sint (start_number e))] initial_state
        in
        ASSERT_MSG (\<not> empty_mat I1 \<and> \<not> empty_mat I2)
          ''imread failed. Check start_number and image paths.'' s0 (\<lambda>s0.
        ASSERT_MSG (same_size I1 I2 \<and> mtype I1 = mtype I2)
          ''input images must be same size and type.'' s0 (\<lambda>s0.
        ASSERT_MSG (mtype I1 = CV_8U \<or> mtype I1 = CV_16U)
          ''input image format must be CV_8U or CV_16U.'' s0 (\<lambda>s0.
        ASSERT_MSG (disp_size e = 64 \<or> disp_size e = 128 \<or> disp_size e = 256)
          ''disparity size must be 64, 128 or 256.'' s0 (\<lambda>s0.
          let width = (word_of_int (cols I1) :: 32 word);
              height = (word_of_int (rows I1) :: 32 word);
              src_depth = (if mtype I1 = CV_8U then 8 else 16 :: 32 word);
              dst_depth = (16 :: 32 word);
              src_bytes = sint (src_depth * width * height) sdiv 8;
              dst_bytes = sint (dst_depth * width * height) sdiv 8;
              s1 = emit [Construct_sgm (sint width) (sint height) (sint (disp_size e))
                           (sint src_depth) (sint dst_depth),
                         Allocate d_I1 src_bytes, Allocate d_I2 src_bytes,
                         Allocate d_disparity dst_bytes] s0;
              disparity = \<lparr>rows = sint height, cols = sint width, mtype = CV_16S, mdata = []\<rparr>;
              invalid_disp = invalid_disparity e;
              s2 = emit [Get_invalid_disparity] s1
          in (movie_loop e disparity invalid_disp (start_number e) s2, Returned 0))))))"

section \<open>The benchmark runner (stereosgm\_test\_time.cpp)\<close>

definition WARMUP_RUNS :: int where "WARMUP_RUNS = 20"
definition MEASUREMENT_RUNS :: int where "MEASUREMENT_RUNS = 50"

text \<open>The body of the loop, lines 112 to 123: the state and \<open>total_duration_us\<close>.\<close>

definition test_time_body :: "'d env \<Rightarrow> int \<Rightarrow> 'd \<times> 'd state \<Rightarrow> 'd \<times> 'd state" where
  "test_time_body e i acc =
     (let (total_duration_us, s0) = acc;
          (t1, s1) = now e s0;
          s2 = emit [Execute, Device_synchronize] s1;
          (t2, s3) = now e s2
      in if i \<ge> WARMUP_RUNS then
           let duration = duration_cast_us e (t2 - t1)
           in (d_add e total_duration_us (d_of_int e duration), s3)
         else (total_duration_us, s3))"

text \<open>The loop of line 110: \<open>for (int i = 0; i < WARMUP_RUNS + MEASUREMENT_RUNS; ++i)\<close>.\<close>

function test_time_loop :: "'d env \<Rightarrow> int \<Rightarrow> 'd \<times> 'd state \<Rightarrow> 'd \<times> 'd state" where
  "test_time_loop e i acc =
     (if i < WARMUP_RUNS + MEASUREMENT_RUNS then test_time_loop e (i + 1) (test_time_body e i acc)
      else acc)"
  by pat_completeness auto
termination
  by (relation "measure (\<lambda>(e, i, acc). nat (WARMUP_RUNS + MEASUREMENT_RUNS - i))") auto

declare test_time_loop.simps [simp del]

definition test_time_main :: "'d env \<Rightarrow> 'd state \<times> status" where
  "test_time_main e =
     (if has_help e then (emit [Print_message] initial_state, Returned 0)
      else if \<not> check_ok e then
        (emit [Print_errors, Print_message] initial_state, Exited EXIT_FAILURE)
      else
        let I1 = imread_L e (sint (start_number e));
            I2 = imread_R e (sint (start_number e));
            s0 = emit [Imread Left_image (sint (start_number e)),
                       Imread Right_image (sint (start_number e))] initial_state
        in
        ASSERT_MSG (\<not> empty_mat I1 \<and> \<not> empty_mat I2)
          ''imread failed. Check start_number and image paths.'' s0 (\<lambda>s0.
        ASSERT_MSG (same_size I1 I2 \<and> mtype I1 = mtype I2)
          ''input images must be same size and type.'' s0 (\<lambda>s0.
        if mtype I1 \<noteq> CV_8U \<and> mtype I1 \<noteq> CV_16U then
          (emit [Cerr ''Error: Input image format is not supported.'',
                 Cerr ''Required format: CV_8U (8-bit grayscale) or CV_16U (16-bit grayscale).'',
                 Cerr (''Actual format: '' @ type2str (mtype I1)),
                 Cerr ''Hint: If you are using color images, please convert them to grayscale first.'']
             s0, Exited EXIT_FAILURE)
        else
        ASSERT_MSG (disp_size e = 64 \<or> disp_size e = 128 \<or> disp_size e = 256)
          ''disparity size must be 64, 128 or 256.'' s0 (\<lambda>s0.
          let width = (word_of_int (cols I1) :: 32 word);
              height = (word_of_int (rows I1) :: 32 word);
              src_depth = (if mtype I1 = CV_8U then 8 else 16 :: 32 word);
              dst_depth = (16 :: 32 word);
              src_bytes = sint (src_depth * width * height) sdiv 8;
              dst_bytes = sint (dst_depth * width * height) sdiv 8;
              s1 = emit [Construct_sgm (sint width) (sint height) (sint (disp_size e))
                           (sint src_depth) (sint dst_depth),
                         Allocate d_I1 src_bytes, Allocate d_I2 src_bytes,
                         Allocate d_disparity dst_bytes] s0;
              s2 = emit [Upload d_I1, Upload d_I2] s1;
              s3 = emit [Cout ''Starting performance measurement...'',
                         Cout (''Warm-up runs: '' @ show_int WARMUP_RUNS),
                         Cout (''Measurement runs: '' @ show_int MEASUREMENT_RUNS)] s2;
              (total_duration_us, s4) = test_time_loop e 0 (d_of_int e 0, s3);
              average_time_us = d_div e total_duration_us (d_of_int e MEASUREMENT_RUNS);
              average_time_ms = d_div e average_time_us (d_of_int e 1000);
              s5 = emit [Cout (CHR 0x0A # ''--------------------------------------------------''),
                         Cout ''Performance Results:'',
                         Cout_average MEASUREMENT_RUNS 2 average_time_ms,
                         Cout ''--------------------------------------------------''] s4
          in (s5, Returned 0)))))"

section \<open>Notions used in the statements\<close>

text \<open>A frame is readable when neither of its two images is empty (the negation of the
  test of line 91).\<close>

definition readable :: "'d env \<Rightarrow> int \<Rightarrow> bool" where
  "readable e n = (\<not> empty_mat (imread_L e n) \<and> \<not> empty_mat (imread_R e n))"

text \<open>The three conditions on the first pair that both programs check after loading it.\<close>

definition compatible_pair :: "nat mat \<Rightarrow> nat mat \<Rightarrow> bool" where
  "compatible_pair a b =
     (same_size a b \<and> mtype a = mtype b \<and> (mtype a = CV_8U \<or> mtype a = CV_16U))"

definition supported_disp_size :: "32 word \<Rightarrow> bool" where
  "supported_disp_size d = (d = 64 \<or> d = 128 \<or> d = 256)"

text \<open>A run passes the initial validation when no help is asked for, the options parse,
  the pair at \<open>start_number\<close> is readable and compatible, and \<open>disp_size\<close> is supported.\<close>

definition passes_validation :: "'d env \<Rightarrow> bool" where
  "passes_validation e =
     (\<not> has_help e \<and> check_ok e \<and> readable e (sint (start_number e))
      \<and> compatible_pair (imread_L e (sint (start_number e))) (imread_R e (sint (start_number e)))
      \<and> supported_disp_size (disp_size e))"

text \<open>The value of the counter \<open>frame_no\<close> after \<open>k\<close> increments, and the frames the batch
  runner is to process: those of the first \<open>total_number\<close> values of the counter, up to the
  first unreadable one.\<close>

definition frame_number :: "'d env \<Rightarrow> nat \<Rightarrow> int" where
  "frame_number e k = sint (start_number e + of_nat k)"

definition frames_to_process :: "'d env \<Rightarrow> int list" where
  "frames_to_process e =
     takeWhile (readable e) (map (frame_number e) [0 ..< nat (sint (total_number e))])"

text \<open>The host matrix of line 83, \<open>cv::Mat disparity(height, width, CV_16S)\<close>, before any
  download.\<close>

definition host_disparity :: "'d env \<Rightarrow> 16 word mat" where
  "host_disparity e =
     (let I1 = imread_L e (sint (start_number e))
      in \<lparr>rows = sint (word_of_int (rows I1) :: 32 word),
          cols = sint (word_of_int (cols I1) :: 32 word), mtype = CV_16S, mdata = []\<rparr>)"

text \<open>The events of one iteration of the batch loop on a readable frame \<open>n\<close>, when \<open>c\<close>
  readings of the clock were taken before it.\<close>

definition output_of_frame :: "'d env \<Rightarrow> 16 word mat \<Rightarrow> int \<Rightarrow> int \<Rightarrow> 16 word mat" where
  "output_of_frame e disparity0 invalid_disp n =
     encode_disparity
       (disparity0\<lparr>mdata := sgm_execute e (imread_L e n) (imread_R e n)\<rparr>) invalid_disp"

definition fps_of_window :: "'d env \<Rightarrow> int \<Rightarrow> int \<Rightarrow> 'd" where
  "fps_of_window e t1 t2 =
     d_div e (d_of_int e 1000000) (d_of_int e (duration_cast_us e (t2 - t1)))"

definition line_of_frame :: "'d env \<Rightarrow> 16 word mat \<Rightarrow> int \<Rightarrow> nat \<Rightarrow> int \<Rightarrow> 'd event" where
  "line_of_frame e disparity0 invalid_disp c n =
     (case imwrite e (full_path e n) (output_of_frame e disparity0 invalid_disp n) of
        Throws \<Rightarrow> Cerr_error_saving n (full_path e n)
      | _ \<Rightarrow> Cout_saved n (full_path e n) 2 (fps_of_window e (clock e c) (clock e (Suc c))))"

definition frame_events :: "'d env \<Rightarrow> 16 word mat \<Rightarrow> int \<Rightarrow> nat \<Rightarrow> int \<Rightarrow> 'd event list" where
  "frame_events e disparity0 invalid_disp c n =
     [Imread Left_image n, Imread Right_image n, Upload d_I1, Upload d_I2,
      Now (clock e c), Execute, Device_synchronize, Now (clock e (Suc c)),
      Download d_disparity, Convert_to, Compare_invalid, Set_to,
      Imwrite (full_path e n) (output_of_frame e disparity0 invalid_disp n),
      line_of_frame e disparity0 invalid_disp c n]"

primrec frames_events ::
  "'d env \<Rightarrow> 16 word mat \<Rightarrow> int \<Rightarrow> nat \<Rightarrow> int list \<Rightarrow> 'd event list" where
  "frames_events e disparity0 invalid_disp c [] = []"
| "frames_events e disparity0 invalid_disp c (n # ns) =
     frame_events e disparity0 invalid_disp c n
     @ frames_events e disparity0 invalid_disp (c + 2) ns"

text \<open>The events of the iteration that meets an unreadable frame, if the loop reaches one
  before \<open>total_number\<close> frames are done; \<open>j\<close> iterations were run before.\<close>

definition stop_events :: "'d env \<Rightarrow> nat \<Rightarrow> 'd event list" where
  "stop_events e j =
     (let m = j + length (takeWhile (readable e)
                (map (frame_number e) [j ..< nat (sint (total_number e))]))
      in if m < nat (sint (total_number e))
         then [Imread Left_image (frame_number e m), Imread Right_image (frame_number e m),
               Cout_finished (frame_number e m)]
         else [])"

text \<open>The events of a batch run before its loop, once the validation has passed.\<close>

definition movie_init_events :: "'d env \<Rightarrow> 'd event list" where
  "movie_init_events e =
     (let I1 = imread_L e (sint (start_number e));
          width = (word_of_int (cols I1) :: 32 word);
          height = (word_of_int (rows I1) :: 32 word);
          src_depth = (if mtype I1 = CV_8U then 8 else 16 :: 32 word)
      in [Imread Left_image (sint (start_number e)), Imread Right_image (sint (start_number e)),
          Construct_sgm (sint width) (sint height) (sint (disp_size e)) (sint src_depth) 16,
          Allocate d_I1 (sint (src_depth * width * height) sdiv 8),
          Allocate d_I2 (sint (src_depth * width * height) sdiv 8),
          Allocate d_disparity (sint (16 * width * height) sdiv 8),
          Get_invalid_disparity])"

text \<open>Readings of a trace.\<close>

fun processed_frame :: "'d event \<Rightarrow> int option" where
  "processed_frame (Cout_saved n p k fps) = Some n"
| "processed_frame (Cerr_error_saving n p) = Some n"
| "processed_frame _ = None"

definition processed_frames :: "'d event list \<Rightarrow> int list" where
  "processed_frames tr = List.map_filter processed_frame tr"

fun written_path :: "'d event \<Rightarrow> string option" where
  "written_path (Imwrite p m) = Some p"
| "written_path _ = None"

definition imwrite_paths :: "'d event list \<Rightarrow> string list" where
  "imwrite_paths tr = List.map_filter written_path tr"

fun reported_average :: "'d event \<Rightarrow> (int \<times> nat \<times> 'd) option" where
  "reported_average (Cout_average n k avg) = Some (n, k, avg)"
| "reported_average _ = None"

definition reported_averages :: "'d event list \<Rightarrow> (int \<times> nat \<times> 'd) list" where
  "reported_averages tr = List.map_filter reported_average tr"

fun loaded_frame :: "'d event \<Rightarrow> (side \<times> int) option" where
  "loaded_frame (Imread sd n) = Some (sd, n)"
| "loaded_frame _ = None"

definition loaded_frames :: "'d event list \<Rightarrow> (side \<times> int) list" where
  "loaded_frames tr = List.map_filter loaded_frame tr"

fun is_device_allocation :: "'d event \<Rightarrow> bool" where
  "is_device_allocation (Allocate b n) = True"
| "is_device_allocation (Construct_sgm w h d sd dd) = True"
| "is_device_allocation _ = False"

text \<open>The events of a benchmark run before its loop and after it, once the validation has
  passed; \<open>avg\<close> is the average that is printed.\<close>

definition test_time_setup_events :: "'d env \<Rightarrow> 'd event list" where
  "test_time_setup_events e =
     (let I1 = imread_L e (sint (start_number e));
          width = (word_of_int (cols I1) :: 32 word);
          height = (word_of_int (rows I1) :: 32 word);
          src_depth = (if mtype I1 = CV_8U then 8 else 16 :: 32 word)
      in [Imread Left_image (sint (start_number e)), Imread Right_image (sint (start_number e)),
          Construct_sgm (sint width) (sint height) (sint (disp_size e)) (sint src_depth) 16,
          Allocate d_I1 (sint (src_depth * width * height) sdiv 8),
          Allocate d_I2 (sint (src_depth * width * height) sdiv 8),
          Allocate d_disparity (sint (16 * width * height) sdiv 8),
          Upload d_I1, Upload d_I2,
          Cout ''Starting performance measurement...'',
          Cout ''Warm-up runs: 20'',
          Cout ''Measurement runs: 50''])"

definition test_time_result_events :: "'d \<Rightarrow> 'd event list" where
  "test_time_result_events avg =
     [Cout (CHR 0x0A # ''--------------------------------------------------''),
      Cout ''Performance Results:'',
      Cout_average 50 2 avg,
      Cout ''--------------------------------------------------'']"

text \<open>Iteration \<open>i\<close> of the benchmark loop takes the readings \<open>2 * i\<close> and \<open>2 * i + 1\<close> of the
  clock, around the matching call and the wait for the device.\<close>

definition window_events :: "'d env \<Rightarrow> int \<Rightarrow> 'd event list" where
  "window_events e i =
     [Now (clock e (nat (2 * i))), Execute, Device_synchronize, Now (clock e (nat (2 * i + 1)))]"

definition iteration_duration :: "'d env \<Rightarrow> int \<Rightarrow> int" where
  "iteration_duration e i =
     duration_cast_us e (clock e (nat (2 * i + 1)) - clock e (nat (2 * i)))"

text \<open>The 50 measured durations of a benchmark run, those of iterations 20 to 69, and the
  arithmetic mean of a list of durations in \<open>double\<close> arithmetic, in milliseconds: the sum
  from \<open>0.0\<close>, divided by the number of durations, divided by \<open>1000.0\<close>.\<close>

definition measured_durations :: "'d env \<Rightarrow> int list" where
  "measured_durations e = map (iteration_duration e) [20 .. 69]"

definition mean_ms :: "'d env \<Rightarrow> int list \<Rightarrow> 'd" where
  "mean_ms e ds =
     d_div e (d_div e (foldl (d_add e) (d_of_int e 0) (map (d_of_int e) ds))
                (d_of_int e (int (length ds))))
       (d_of_int e 1000)"

section \<open>Example inputs\<close>

text \<open>A readable 8-bit image of one row, a wider one, and the empty matrix that
  \<open>cv::imread\<close> returns for a file it cannot read.\<close>

definition example_image :: "nat mat" where
  "example_image = \<lparr>rows = 1, cols = 2, mtype = CV_8U, mdata = [10, 20]\<rparr>"

definition wide_image :: "nat mat" where
  "wide_image = \<lparr>rows = 1, cols = 3, mtype = CV_8U, mdata = [10, 20, 30]\<rparr>"

definition no_image :: "nat mat" where
  "no_image = \<lparr>rows = 0, cols = 0, mtype = 0, mdata = []\<rparr>"

text \<open>The scenario of section 8 of the spec: \<open>start_number = 0\<close>, \<open>total_number = 5\<close>, and
  only the frames 0, 1 and 2 are readable.  The clock has 1000 ticks in a microsecond and
  advances by 2500 ticks between two readings; \<open>double\<close> arithmetic is exact rational
  arithmetic.\<close>

definition example_env :: "rat env" where
  "example_env =
     \<lparr>has_help = False, check_ok = True, output_path = ''out'', disp_size = 128,
      start_number = 0, total_number = 5,
      imread_L = (\<lambda>n. if 0 \<le> n \<and> n < 3 then example_image else no_image),
      imread_R = (\<lambda>n. if 0 \<le> n \<and> n < 3 then example_image else no_image),
      invalid_disparity = - 1,
      sgm_execute = (\<lambda>l r. [4, - 1]),
      clock = (\<lambda>k. 2500 * int k),
      ticks_per_us = 1000,
      imwrite = (\<lambda>p m. Written),
      d_of_int = of_int, d_add = (+), d_div = (/)\<rparr>"

text \<open>The same run when \<open>cv::imwrite\<close> cannot write: it returns \<open>false\<close>.\<close>

definition unwritable_env :: "rat env" where
  "unwritable_env = example_env\<lparr>imwrite := (\<lambda>p m. Not_written)\<rparr>"

text \<open>The same run when frame 1 has a right image wider than its left image.\<close>

definition mismatch_env :: "rat env" where
  "mismatch_env =
     example_env\<lparr>imread_R := (\<lambda>n. if n = 1 then wide_image
                                 else if 0 \<le> n \<and> n < 3 then example_image else no_image)\<rparr>"

text \<open>The same run with a \<open>disp_size\<close> that is not supported.\<close>

definition bad_disp_env :: "rat env" where
  "bad_disp_env = example_env\<lparr>disp_size := 100\<rparr>"


definition large_image :: "nat mat" where
  "large_image = \<lparr>rows = 16384, cols = 16384, mtype = CV_8U, mdata = [0]\<rparr>"

definition large_env :: "rat env" where
  "large_env =
     example_env\<lparr>total_number := 0,
       imread_L := (\<lambda>n. large_image), imread_R := (\<lambda>n. large_image)\<rparr>"

text \<open>A run of no frame, with and without a readable first pair.\<close>

definition zero_frames_env :: "rat env" where
  "zero_frames_env = example_env\<lparr>total_number := 0\<rparr>"

definition zero_frames_missing_env :: "rat env" where
  "zero_frames_missing_env = example_env\<lparr>total_number := 0, start_number := 7\<rparr>"

text \<open>A disparity map of one row used to run the encoder: a small valid disparity, the
  invalid value \<open>-1\<close>, a negative disparity other than the invalid value, and a disparity
  whose product with 100 is above 65535.\<close>

definition example_disparity :: "16 word mat" where
  "example_disparity = \<lparr>rows = 1, cols = 4, mtype = CV_16S, mdata = [5, - 1, - 7, 700]\<rparr>"

section \<open>Properties of the encoder\<close>

lemma map2_same_source:
  "map2 f (map g xs) (map h xs) = map (\<lambda>x. f (g x) (h x)) xs"
  by (induction xs) simp_all

lemma encode_disparity_data:
  "mdata (encode_disparity disparity invalid_disp) =
     map (\<lambda>d. if sint d = invalid_disp then 0 else saturate_cast_ushort (sint d * 100))
       (mdata disparity)"
  by (simp add: encode_disparity_def setTo_def convertTo_16U_def compare_eq_def
      map2_same_source Let_def)

lemma uint_saturate_cast_ushort:
  "uint (saturate_cast_ushort v) = max 0 (min 65535 v)"
  by (simp add: saturate_cast_ushort_def uint_word_of_int take_bit_int_eq_self)

lemma encode_disparity_nth:
  assumes "i < length (mdata disparity)"
  shows "mdata (encode_disparity disparity invalid_disp) ! i =
     (if sint (mdata disparity ! i) = invalid_disp then 0
      else saturate_cast_ushort (sint (mdata disparity ! i) * 100))"
  using assms by (simp add: encode_disparity_data)

text \<open>
  C3.  For every sample \<open>d\<close> of the disparity map that differs from the invalid disparity,
  the encoded sample, read as an unsigned 16-bit value, is \<open>d * 100\<close> clamped to the
  unsigned 16-bit range: 65535 when the product is above 65535, 0 when it is below 0, the
  product itself otherwise.
\<close>

theorem encode_disparity_scales_valid:
  assumes "i < length (mdata disparity)"
    and "sint (mdata disparity ! i) \<noteq> invalid_disp"
  shows "uint (mdata (encode_disparity disparity invalid_disp) ! i) =
     (if sint (mdata disparity ! i) * 100 > 65535 then 65535
      else if sint (mdata disparity ! i) * 100 < 0 then 0
      else sint (mdata disparity ! i) * 100)"
  using assms by (simp add: encode_disparity_nth uint_saturate_cast_ushort)

theorem encode_disparity_scales_valid_witness:
  "0 < length (mdata example_disparity) \<and> sint (mdata example_disparity ! 0) \<noteq> - 1
   \<and> uint (mdata (encode_disparity example_disparity (- 1)) ! 0) = 500
   \<and> 3 < length (mdata example_disparity) \<and> sint (mdata example_disparity ! 3) \<noteq> - 1
   \<and> uint (mdata (encode_disparity example_disparity (- 1)) ! 3) = 65535"
  using encode_disparity_scales_valid [of 0 example_disparity "- 1"]
    encode_disparity_scales_valid [of 3 example_disparity "- 1"]
  by (simp add: example_disparity_def)

text \<open>
  C4.  The encoded output has the width and height (and the number of samples) of the
  disparity map, and every sample of the disparity map that equals the invalid disparity
  is 0 in the encoded output.
\<close>

theorem encode_disparity_masks_invalid:
  "rows (encode_disparity disparity invalid_disp) = rows disparity
   \<and> cols (encode_disparity disparity invalid_disp) = cols disparity
   \<and> length (mdata (encode_disparity disparity invalid_disp)) = length (mdata disparity)
   \<and> (\<forall>i < length (mdata disparity). sint (mdata disparity ! i) = invalid_disp
        \<longrightarrow> mdata (encode_disparity disparity invalid_disp) ! i = 0)"
proof -
  have "rows (encode_disparity disparity invalid_disp) = rows disparity"
    and "cols (encode_disparity disparity invalid_disp) = cols disparity"
    by (simp_all add: encode_disparity_def setTo_def convertTo_16U_def Let_def)
  moreover have "length (mdata (encode_disparity disparity invalid_disp)) = length (mdata disparity)"
    by (simp add: encode_disparity_data)
  ultimately show ?thesis
    by (simp add: encode_disparity_nth)
qed

theorem encode_disparity_masks_invalid_witness:
  "1 < length (mdata example_disparity) \<and> sint (mdata example_disparity ! 1) = - 1
   \<and> mdata (encode_disparity example_disparity (- 1)) ! 1 = 0
   \<and> rows (encode_disparity example_disparity (- 1)) = 1
   \<and> cols (encode_disparity example_disparity (- 1)) = 4"
proof -
  have len: "1 < length (mdata example_disparity)"
    and inv: "sint (mdata example_disparity ! 1) = - 1"
    and dims: "rows example_disparity = 1" "cols example_disparity = 4"
    by (simp_all add: example_disparity_def)
  from encode_disparity_masks_invalid [of example_disparity "- 1"] len inv dims
  show ?thesis by simp
qed

text \<open>
  C9.  A negative sample other than the invalid disparity is encoded as 0, the value every
  invalid sample is encoded as: the two cannot be told apart in the encoded output.
\<close>

theorem encode_disparity_negative_is_zero:
  assumes "i < length (mdata disparity)"
    and "sint (mdata disparity ! i) < 0"
    and "sint (mdata disparity ! i) \<noteq> invalid_disp"
  shows "mdata (encode_disparity disparity invalid_disp) ! i = 0
   \<and> (\<forall>j < length (mdata disparity). sint (mdata disparity ! j) = invalid_disp
        \<longrightarrow> mdata (encode_disparity disparity invalid_disp) ! j
            = mdata (encode_disparity disparity invalid_disp) ! i)"
  using assms by (simp add: encode_disparity_nth saturate_cast_ushort_def)

theorem encode_disparity_negative_is_zero_witness:
  "2 < length (mdata example_disparity) \<and> sint (mdata example_disparity ! 2) < 0
   \<and> sint (mdata example_disparity ! 2) \<noteq> - 1
   \<and> 1 < length (mdata example_disparity) \<and> sint (mdata example_disparity ! 1) = - 1
   \<and> mdata (encode_disparity example_disparity (- 1)) ! 2 = 0
   \<and> mdata (encode_disparity example_disparity (- 1)) ! 1
       = mdata (encode_disparity example_disparity (- 1)) ! 2"
proof -
  have hyps: "2 < length (mdata example_disparity)" "sint (mdata example_disparity ! 2) < 0"
    "sint (mdata example_disparity ! 2) \<noteq> - 1"
    and inv: "1 < length (mdata example_disparity)" "sint (mdata example_disparity ! 1) = - 1"
    by (simp_all add: example_disparity_def)
  from encode_disparity_negative_is_zero [OF hyps] hyps inv
  show ?thesis by simp
qed

section \<open>Traces of the batch runner\<close>

lemma movie_body_unreadable:
  assumes "\<not> readable e (sint frame_no)"
  shows "movie_body e m d frame_no s =
     Break \<lparr>trace = trace s @ [Imread Left_image (sint frame_no),
                               Imread Right_image (sint frame_no), Cout_finished (sint frame_no)],
            clock_reads = clock_reads s\<rparr>"
  using assms by (simp add: movie_body_def readable_def emit_def Let_def)

lemma movie_body_readable:
  assumes "readable e (sint frame_no)"
  shows "movie_body e m d frame_no s =
     Continue \<lparr>trace = trace s @ frame_events e m d (clock_reads s) (sint frame_no),
               clock_reads = clock_reads s + 2\<rparr>"
  using assms
  by (simp add: movie_body_def readable_def emit_def now_def Let_def frame_events_def
      line_of_frame_def output_of_frame_def fps_of_window_def encode_disparity_def
      split: write_result.split)

lemma sint_of_nat_32:
  assumes "k < 2 ^ 31"
  shows "sint (of_nat k :: 32 word) = int k"
proof -
  have "sint (of_nat k :: 32 word) = signed_take_bit (LENGTH(32) - 1) (int k)"
    by (simp add: signed_of_nat)
  also have "\<dots> = int k"
    using assms by (simp add: signed_take_bit_int_eq_self)
  finally show ?thesis .
qed

lemma iterations_bound: "nat (sint (w :: 32 word)) < 2 ^ 31"
  using sint_lt [of w] by simp

lemma loop_test_after:
  assumes "j \<le> nat (sint (total_number e))"
  shows "sint (start_number e + of_nat j - start_number e) < sint (total_number e)
     \<longleftrightarrow> j < nat (sint (total_number e))"
proof -
  from assms iterations_bound [of "total_number e"] have "j < 2 ^ 31" by simp
  then have "sint (of_nat j :: 32 word) = int j" by (rule sint_of_nat_32)
  then show ?thesis by (simp add: zless_nat_eq_int_zless)
qed

lemma movie_loop_trace:
  assumes "j \<le> nat (sint (total_number e))"
  shows "trace (movie_loop e m d (start_number e + of_nat j) s) =
     trace s
     @ frames_events e m d (clock_reads s)
         (takeWhile (readable e) (map (frame_number e) [j ..< nat (sint (total_number e))]))
     @ stop_events e j"
  using assms
proof (induction "nat (sint (total_number e)) - j" arbitrary: j s)
  case 0
  then have at_end: "\<not> j < nat (sint (total_number e))" by simp
  with loop_test_after [OF "0.prems"]
  have "\<not> sint (start_number e + of_nat j - start_number e) < sint (total_number e)"
    by simp
  with at_end show ?case
    by (simp add: movie_loop.simps [of e m d "start_number e + of_nat j" s] stop_events_def)
next
  case (Suc left)
  then have less: "j < nat (sint (total_number e))" by simp
  then have test: "sint (start_number e + of_nat j - start_number e) < sint (total_number e)"
    using loop_test_after [of j e] by simp
  from less have range: "[j ..< nat (sint (total_number e))]
      = j # [Suc j ..< nat (sint (total_number e))]"
    by (simp add: upt_conv_Cons)
  have frame: "sint (start_number e + of_nat j) = frame_number e j"
    by (simp add: frame_number_def)
  show ?case
  proof (cases "readable e (frame_number e j)")
    case False
    with test less show ?thesis
      by (simp add: movie_loop.simps [of e m d "start_number e + of_nat j" s] range
          movie_body_unreadable frame stop_events_def)
  next
    case True
    have next_frame: "start_number e + of_nat j + 1 = start_number e + of_nat (Suc j)"
      by simp
    have stop: "stop_events e j = stop_events e (Suc j)"
      using True range by (simp add: stop_events_def)
    from Suc.hyps(2) less have "left = nat (sint (total_number e)) - Suc j" by simp
    from Suc.hyps(1) [OF this] less
    have IH: "trace (movie_loop e m d (start_number e + of_nat (Suc j)) s') =
       trace s' @ frames_events e m d (clock_reads s')
         (takeWhile (readable e) (map (frame_number e) [Suc j ..< nat (sint (total_number e))]))
       @ stop_events e (Suc j)" for s'
      by simp
    from True test show ?thesis
      unfolding movie_loop.simps [of e m d "start_number e + of_nat j" s] next_frame
      by (simp add: movie_body_readable frame IH range stop del: of_nat_Suc)
  qed
qed

lemma movie_main_valid:
  assumes "passes_validation e"
  shows "movie_main e =
     (movie_loop e (host_disparity e) (invalid_disparity e) (start_number e)
        \<lparr>trace = movie_init_events e, clock_reads = 0\<rparr>, Returned 0)"
  using assms
  by (auto simp add: passes_validation_def readable_def compatible_pair_def supported_disp_size_def
      movie_main_def ASSERT_MSG_def emit_def initial_state_def movie_init_events_def
      host_disparity_def Let_def)

lemma movie_main_trace:
  assumes "passes_validation e"
  shows "trace (fst (movie_main e)) =
     movie_init_events e
     @ frames_events e (host_disparity e) (invalid_disparity e) 0 (frames_to_process e)
     @ stop_events e 0"
  using movie_loop_trace [of 0 e "host_disparity e" "invalid_disparity e"
      "\<lparr>trace = movie_init_events e, clock_reads = 0\<rparr>"]
  by (simp add: movie_main_valid [OF assms] frames_to_process_def)

lemma movie_main_status:
  assumes "passes_validation e"
  shows "snd (movie_main e) = Returned 0"
  by (simp add: movie_main_valid [OF assms])

lemma movie_main_rejected:
  assumes "\<not> has_help e" and "\<not> passes_validation e"
  shows "snd (movie_main e) = Exited EXIT_FAILURE"
    and "check_ok e \<Longrightarrow> \<exists>msg. trace (fst (movie_main e)) =
       [Imread Left_image (sint (start_number e)), Imread Right_image (sint (start_number e)),
        Cerr msg]"
    and "\<not> check_ok e \<Longrightarrow> trace (fst (movie_main e)) = [Print_errors, Print_message]"
  using assms
  by (auto simp add: passes_validation_def readable_def compatible_pair_def supported_disp_size_def
      movie_main_def ASSERT_MSG_def emit_def initial_state_def Let_def)

lemma movie_main_help:
  assumes "has_help e"
  shows "movie_main e = (\<lparr>trace = [Print_message], clock_reads = 0\<rparr>, Returned 0)"
  using assms by (simp add: movie_main_def emit_def initial_state_def)

lemma map_filter_append:
  "List.map_filter f (xs @ ys) = List.map_filter f xs @ List.map_filter f ys"
  by (simp add: List.map_filter_def)

lemma processed_frames_append:
  "processed_frames (xs @ ys) = processed_frames xs @ processed_frames ys"
  by (simp add: processed_frames_def map_filter_append)

lemma imwrite_paths_append:
  "imwrite_paths (xs @ ys) = imwrite_paths xs @ imwrite_paths ys"
  by (simp add: imwrite_paths_def map_filter_append)

lemma processed_frames_frame_events:
  "processed_frames (frame_events e m d c n) = [n]"
  by (simp add: processed_frames_def frame_events_def line_of_frame_def List.map_filter_simps
      split: write_result.split)

lemma imwrite_paths_frame_events:
  "imwrite_paths (frame_events e m d c n) = [full_path e n]"
  by (simp add: imwrite_paths_def frame_events_def line_of_frame_def List.map_filter_simps
      split: write_result.split)

lemma processed_frames_frames_events:
  "processed_frames (frames_events e m d c ns) = ns"
  by (induction ns arbitrary: c)
    (simp_all add: processed_frames_append processed_frames_frame_events,
     simp add: processed_frames_def List.map_filter_simps)

lemma imwrite_paths_frames_events:
  "imwrite_paths (frames_events e m d c ns) = map (full_path e) ns"
  by (induction ns arbitrary: c)
    (simp_all add: imwrite_paths_append imwrite_paths_frame_events,
     simp add: imwrite_paths_def List.map_filter_simps)

lemma processed_frames_stop_events: "processed_frames (stop_events e j) = []"
  by (simp add: processed_frames_def stop_events_def List.map_filter_simps Let_def)

lemma imwrite_paths_stop_events: "imwrite_paths (stop_events e j) = []"
  by (simp add: imwrite_paths_def stop_events_def List.map_filter_simps Let_def)

lemma processed_frames_init: "processed_frames (movie_init_events e) = []"
  by (simp add: processed_frames_def movie_init_events_def List.map_filter_simps Let_def)

lemma imwrite_paths_init: "imwrite_paths (movie_init_events e) = []"
  by (simp add: imwrite_paths_def movie_init_events_def List.map_filter_simps Let_def)

lemma movie_main_processed:
  "processed_frames (trace (fst (movie_main e))) =
     (if passes_validation e then frames_to_process e else [])"
proof (cases "passes_validation e")
  case True
  then show ?thesis
    by (simp add: movie_main_trace processed_frames_append processed_frames_init
        processed_frames_frames_events processed_frames_stop_events)
next
  case False
  show ?thesis
  proof (cases "has_help e")
    case True
    with False show ?thesis
      by (simp add: movie_main_help processed_frames_def List.map_filter_simps)
  next
    case no_help: False
    show ?thesis
    proof (cases "check_ok e")
      case True
      from movie_main_rejected(2) [OF no_help False True] False show ?thesis
        by (auto simp add: processed_frames_def List.map_filter_simps)
    next
      case False
      from movie_main_rejected(3) [OF no_help \<open>\<not> passes_validation e\<close> False]
        \<open>\<not> passes_validation e\<close> show ?thesis
        by (simp add: processed_frames_def List.map_filter_simps)
    qed
  qed
qed

lemma movie_main_imwrite_paths:
  "imwrite_paths (trace (fst (movie_main e))) =
     (if passes_validation e then map (full_path e) (frames_to_process e) else [])"
proof (cases "passes_validation e")
  case True
  then show ?thesis
    by (simp add: movie_main_trace imwrite_paths_append imwrite_paths_init
        imwrite_paths_frames_events imwrite_paths_stop_events)
next
  case False
  show ?thesis
  proof (cases "has_help e")
    case True
    with False show ?thesis
      by (simp add: movie_main_help imwrite_paths_def List.map_filter_simps)
  next
    case no_help: False
    show ?thesis
    proof (cases "check_ok e")
      case True
      from movie_main_rejected(2) [OF no_help False True] False show ?thesis
        by (auto simp add: imwrite_paths_def List.map_filter_simps)
    next
      case False
      from movie_main_rejected(3) [OF no_help \<open>\<not> passes_validation e\<close> False]
        \<open>\<not> passes_validation e\<close> show ?thesis
        by (simp add: imwrite_paths_def List.map_filter_simps)
    qed
  qed
qed

lemma length_frames_to_process:
  "length (frames_to_process e) \<le> nat (sint (total_number e))"
proof -
  have "length (frames_to_process e)
      \<le> length (map (frame_number e) [0 ..< nat (sint (total_number e))])"
    unfolding frames_to_process_def by (rule length_takeWhile_le)
  then show ?thesis by simp
qed

lemma frames_to_process_nth:
  assumes "k < length (frames_to_process e)"
  shows "frames_to_process e ! k = frame_number e k"
proof -
  from assms length_frames_to_process [of e] have "k < nat (sint (total_number e))" by simp
  with assms show ?thesis
    by (simp add: frames_to_process_def takeWhile_nth)
qed





lemma frames_events_segment:
  assumes "k < length ns"
  shows "\<exists>before after. frames_events e m d c ns =
     before @ frame_events e m d (c + 2 * k) (ns ! k) @ after"
  using assms
proof (induction ns arbitrary: c k)
  case Nil
  then show ?case by simp
next
  case (Cons n ns)
  show ?case
  proof (cases k)
    case 0
    have "frames_events e m d c (n # ns)
        = [] @ frame_events e m d (c + 2 * 0) ((n # ns) ! 0) @ frames_events e m d (c + 2) ns"
      by simp
    with 0 show ?thesis by blast
  next
    case (Suc j)
    with Cons.prems have "j < length ns" by simp
    from Cons.IH [OF this, of "c + 2"] obtain before after where
      "frames_events e m d (c + 2) ns =
         before @ frame_events e m d (c + 2 + 2 * j) (ns ! j) @ after"
      by blast
    then have "frames_events e m d c (n # ns) =
        (frame_events e m d c n @ before)
        @ frame_events e m d (c + 2 * Suc j) ((n # ns) ! Suc j) @ after"
      by (simp add: add.assoc)
    with Suc show ?thesis by blast
  qed
qed

lemma frame_events_explicit:
  "frame_events e m d c n =
     [Imread Left_image n, Imread Right_image n, Upload d_I1, Upload d_I2,
      Now (clock e c), Execute, Device_synchronize, Now (clock e (c + 1)),
      Download d_disparity, Convert_to, Compare_invalid, Set_to,
      Imwrite (full_path e n) (output_of_frame e m d n),
      (if imwrite e (full_path e n) (output_of_frame e m d n) = Throws
       then Cerr_error_saving n (full_path e n)
       else Cout_saved n (full_path e n) 2
              (d_div e (d_of_int e 1000000)
                 (d_of_int e (duration_cast_us e (clock e (c + 1) - clock e c)))))]"
  by (simp add: frame_events_def line_of_frame_def fps_of_window_def split: write_result.split)

lemma frames_to_process_none:
  assumes "sint (total_number e) \<le> 0"
  shows "frames_to_process e = []" and "stop_events e 0 = []"
  using assms by (simp_all add: frames_to_process_def stop_events_def)

lemma loaded_frames_init:
  "loaded_frames (movie_init_events e)
     = [(Left_image, sint (start_number e)), (Right_image, sint (start_number e))]"
  by (simp add: loaded_frames_def movie_init_events_def List.map_filter_simps Let_def)

section \<open>Runs on the example inputs\<close>

lemmas example_simps =
  example_env_def readable_def empty_mat_def example_image_def no_image_def wide_image_def
  passes_validation_def compatible_pair_def same_size_def supported_disp_size_def
  frames_to_process_def frame_number_def upt_conv_Cons CV_8U_def CV_16U_def

lemma example_env_valid: "passes_validation example_env"
  by (simp add: example_simps)

lemma example_env_frames: "frames_to_process example_env = [0, 1, 2]"
  by (simp add: example_simps)

text \<open>
  The sizes of the device buffers wrap around as the \<open>int\<close> products of lines 76 and 77 do:
  for a pair of 8-bit images of 16384 by 16384 samples, \<open>src_bytes\<close> is \<open>-268435456\<close> and
  \<open>dst_bytes\<close> is 0.
\<close>

lemma large_env_allocations:
  "filter is_device_allocation (trace (fst (movie_main large_env))) =
     [Construct_sgm 16384 16384 128 8 16,
      Allocate d_I1 (- 268435456), Allocate d_I2 (- 268435456), Allocate d_disparity 0]"
proof -
  have valid: "passes_validation large_env"
    by (simp add: large_env_def large_image_def example_simps)
  have none: "sint (total_number large_env) \<le> 0"
    by (simp add: large_env_def)
  show ?thesis
    by (simp add: movie_main_trace [OF valid] frames_to_process_none [OF none])
      (simp add: movie_init_events_def large_env_def large_image_def example_env_def CV_8U_def
        signed_divide_int_def Let_def)
qed

section \<open>Properties of the batch runner\<close>




text \<open>
  C2, at a failing input.  Frame 1 of \<open>mismatch_env\<close> is readable, but its right image is
  wider than its left image.  The loop does not check the pair: the run is not aborted, it
  returns 0, and frame 1 is processed and written like the frames 0 and 2.
\<close>

theorem movie_mismatch_processed:
  "readable mismatch_env 1
   \<and> \<not> same_size (imread_L mismatch_env 1) (imread_R mismatch_env 1)
   \<and> snd (movie_main mismatch_env) = Returned 0
   \<and> processed_frames (trace (fst (movie_main mismatch_env))) = [0, 1, 2]
   \<and> imwrite_paths (trace (fst (movie_main mismatch_env)))
       = [''out/disparity_0000.png'', ''out/disparity_0001.png'', ''out/disparity_0002.png'']"
proof -
  have valid: "passes_validation mismatch_env"
    and frames: "frames_to_process mismatch_env = [0, 1, 2]"
    and pair: "readable mismatch_env 1"
      "\<not> same_size (imread_L mismatch_env 1) (imread_R mismatch_env 1)"
    by (simp_all add: mismatch_env_def example_simps)
  have paths: "full_path mismatch_env 0 = ''out/disparity_0000.png''"
    "full_path mismatch_env 1 = ''out/disparity_0001.png''"
    "full_path mismatch_env 2 = ''out/disparity_0002.png''"
    by (simp_all add: mismatch_env_def example_env_def full_path_def show_int_def
        show_nat.simps digit_char_def setw_setfill_def eval_nat_numeral)
  from valid frames pair paths show ?thesis
    by (simp add: movie_main_processed movie_main_imwrite_paths movie_main_status)
qed

text \<open>
  C7.  For the \<open>k\<close>-th frame that is processed, the trace holds, in this order: the two
  reads, the two uploads, a reading \<open>t1\<close> of the clock, the matching call, the wait for the
  device, the next reading \<open>t2\<close> of the clock, the download, the three calls that encode
  the disparity map, the call of \<open>cv::imwrite\<close> on the encoded image and the line of the
  frame.  Nothing but the matching call and the wait lies between the two readings: the
  uploads come before the first, the download and the encoding after the second.  The
  rate on the progress line is \<open>1000000 / duration_cast_us (t2 - t1)\<close> in \<open>double\<close>
  arithmetic.
\<close>

theorem movie_fps_timing_window:
  fixes e :: "'d env" and k :: nat
  defines "n \<equiv> sint (start_number e + of_nat k)"
    and "t1 \<equiv> clock e (2 * k)" and "t2 \<equiv> clock e (2 * k + 1)"
    and "out \<equiv> output_of_frame e (host_disparity e) (invalid_disparity e)
                 (sint (start_number e + of_nat k))"
  assumes valid: "passes_validation e"
    and processed: "k < length (frames_to_process e)"
  shows "\<exists>before after.
     trace (fst (movie_main e)) =
       before
       @ [Imread Left_image n, Imread Right_image n,
          Upload d_I1, Upload d_I2,
          Now t1, Execute, Device_synchronize, Now t2,
          Download d_disparity, Convert_to, Compare_invalid, Set_to,
          Imwrite (full_path e n) out,
          (if imwrite e (full_path e n) out = Throws
           then Cerr_error_saving n (full_path e n)
           else Cout_saved n (full_path e n) 2
                  (d_div e (d_of_int e 1000000) (d_of_int e (duration_cast_us e (t2 - t1)))))]
       @ after"
proof -
  from frames_events_segment [OF processed, of e "host_disparity e" "invalid_disparity e" 0]
  obtain before after where seg:
    "frames_events e (host_disparity e) (invalid_disparity e) 0 (frames_to_process e) =
       before @ frame_events e (host_disparity e) (invalid_disparity e) (2 * k) n @ after"
    by (auto simp add: frames_to_process_nth [OF processed] n_def frame_number_def)
  have "trace (fst (movie_main e)) =
      (movie_init_events e @ before)
      @ frame_events e (host_disparity e) (invalid_disparity e) (2 * k) n
      @ (after @ stop_events e 0)"
    by (simp add: movie_main_trace [OF valid] seg)
  then show ?thesis
    unfolding frame_events_explicit t1_def t2_def out_def n_def by blast
qed

theorem movie_fps_timing_window_witness:
  "passes_validation example_env \<and> 1 < length (frames_to_process example_env)
   \<and> (\<exists>before after.
        trace (fst (movie_main example_env)) =
          before
          @ [Imread Left_image 1, Imread Right_image 1, Upload d_I1, Upload d_I2,
             Now 5000, Execute, Device_synchronize, Now 7500,
             Download d_disparity, Convert_to, Compare_invalid, Set_to,
             Imwrite (full_path example_env 1)
               \<lparr>rows = 1, cols = 2, mtype = CV_16U, mdata = [400, 0]\<rparr>,
             Cout_saved 1 (full_path example_env 1) 2 500000]
          @ after)"
proof -
  have hyps: "passes_validation example_env" "1 < length (frames_to_process example_env)"
    by (simp_all add: example_env_valid example_env_frames)
  have written: "imwrite example_env p m = Written" for p m
    by (simp add: example_env_def)
  have readings: "sint (start_number example_env + 1) = 1" "clock example_env 2 = 5000"
    "clock example_env 3 = 7500"
    "d_div example_env (d_of_int example_env 1000000)
       (d_of_int example_env (duration_cast_us example_env 2500)) = 500000"
    by (simp_all add: example_env_def duration_cast_us_def signed_divide_int_def)
  have out: "output_of_frame example_env (host_disparity example_env)
       (invalid_disparity example_env) 1
     = \<lparr>rows = 1, cols = 2, mtype = CV_16U, mdata = [400, 0]\<rparr>"
    by (simp add: output_of_frame_def host_disparity_def example_env_def example_image_def
        encode_disparity_def convertTo_16U_def compare_eq_def setTo_def
        saturate_cast_ushort_def Let_def)
  from movie_fps_timing_window [OF hyps] hyps show ?thesis
    by (simp add: readings written out)
qed

text \<open>
  C8, at a failing input.  In \<open>unwritable_env\<close> every call of \<open>cv::imwrite\<close> fails by
  returning \<open>false\<close>.  The loop goes on and the run returns 0, as it does whatever
  \<open>cv::imwrite\<close> returns or throws (\<open>movie_main_processed\<close>, \<open>movie_main_status\<close>), but no
  failure is logged: the line of each frame is the progress line that reports the file as
  saved.  The line of the \<open>catch\<close> block is printed only when \<open>cv::imwrite\<close> throws.
\<close>

theorem movie_unwritable_reports_saved:
  "(\<forall>p m. imwrite unwritable_env p m = Not_written)
   \<and> snd (movie_main unwritable_env) = Returned 0
   \<and> filter (\<lambda>ev. processed_frame ev \<noteq> None) (trace (fst (movie_main unwritable_env))) =
       [Cout_saved 0 ''out/disparity_0000.png'' 2 500000,
        Cout_saved 1 ''out/disparity_0001.png'' 2 500000,
        Cout_saved 2 ''out/disparity_0002.png'' 2 500000]"
proof -
  have valid: "passes_validation unwritable_env"
    and frames: "frames_to_process unwritable_env = [0, 1, 2]"
    by (simp_all add: unwritable_env_def example_simps)
  have paths: "full_path unwritable_env 0 = ''out/disparity_0000.png''"
    "full_path unwritable_env 1 = ''out/disparity_0001.png''"
    "full_path unwritable_env 2 = ''out/disparity_0002.png''"
    by (simp_all add: unwritable_env_def example_env_def full_path_def show_int_def
        show_nat.simps digit_char_def setw_setfill_def eval_nat_numeral)
  have fps: "fps_of_window unwritable_env (clock unwritable_env c) (clock unwritable_env (Suc c))
      = 500000" for c
    by (simp add: fps_of_window_def unwritable_env_def example_env_def duration_cast_us_def
        signed_divide_int_def algebra_simps)
  have result: "imwrite unwritable_env p m = Not_written" for p m
    by (simp add: unwritable_env_def)
  have "stop_events unwritable_env 0
      = [Imread Left_image 3, Imread Right_image 3, Cout_finished 3]"
    using frames by (simp add: stop_events_def frames_to_process_def)
      (simp add: unwritable_env_def example_env_def frame_number_def)
  then show ?thesis
    by (simp add: movie_main_trace [OF valid] movie_main_status [OF valid] frames result
        frame_events_def line_of_frame_def movie_init_events_def Let_def paths fps)
qed

text \<open>
  C10.  When \<open>total_number\<close> is 0 or negative, a run that asks for no help and whose
  options parse still starts by reading the pair at \<open>start_number\<close>, and reads no other
  image; it processes no frame, never calls the engine and writes no file.  If the pair is
  unreadable or incompatible the run ends with \<open>EXIT_FAILURE\<close> after a message, as does
  every run that fails the validation; if the validation passes, the run returns 0.
\<close>

theorem movie_zero_frames_still_validates:
  fixes e :: "'d env"
  defines "tr \<equiv> trace (fst (movie_main e))"
  assumes no_help: "\<not> has_help e" and parsed: "check_ok e"
    and none: "sint (total_number e) \<le> 0"
  shows "take 2 tr = [Imread Left_image (sint (start_number e)),
                     Imread Right_image (sint (start_number e))]
   \<and> loaded_frames tr
       = [(Left_image, sint (start_number e)), (Right_image, sint (start_number e))]
   \<and> processed_frames tr = [] \<and> imwrite_paths tr = [] \<and> Execute \<notin> set tr
   \<and> (\<not> (readable e (sint (start_number e))
           \<and> compatible_pair (imread_L e (sint (start_number e)))
                (imread_R e (sint (start_number e))))
        \<longrightarrow> snd (movie_main e) = Exited EXIT_FAILURE
            \<and> (\<exists>msg. tr = [Imread Left_image (sint (start_number e)),
                             Imread Right_image (sint (start_number e)), Cerr msg]))
   \<and> (\<not> passes_validation e \<longrightarrow> snd (movie_main e) = Exited EXIT_FAILURE)
   \<and> (passes_validation e \<longrightarrow> snd (movie_main e) = Returned 0)"
proof (cases "passes_validation e")
  case True
  then have tr: "tr = movie_init_events e"
    by (simp add: tr_def movie_main_trace frames_to_process_none [OF none])
  have "take 2 (movie_init_events e)
      = [Imread Left_image (sint (start_number e)), Imread Right_image (sint (start_number e))]"
    and "Execute \<notin> set (movie_init_events e)"
    by (simp_all add: movie_init_events_def Let_def)
  with True tr show ?thesis
    by (simp add: movie_main_status processed_frames_init imwrite_paths_init loaded_frames_init
        passes_validation_def)
next
  case False
  from movie_main_rejected(2) [OF no_help False parsed] obtain msg where
    tr: "tr = [Imread Left_image (sint (start_number e)),
               Imread Right_image (sint (start_number e)), Cerr msg]"
    by (auto simp add: tr_def)
  with False movie_main_rejected(1) [OF no_help False] show ?thesis
    by (simp add: processed_frames_def imwrite_paths_def loaded_frames_def List.map_filter_simps)
qed

theorem movie_zero_frames_still_validates_witness:
  "\<not> has_help zero_frames_missing_env \<and> check_ok zero_frames_missing_env
   \<and> sint (total_number zero_frames_missing_env) \<le> 0
   \<and> \<not> readable zero_frames_missing_env (sint (start_number zero_frames_missing_env))
   \<and> take 2 (trace (fst (movie_main zero_frames_missing_env)))
       = [Imread Left_image 7, Imread Right_image 7]
   \<and> snd (movie_main zero_frames_missing_env) = Exited EXIT_FAILURE
   \<and> \<not> has_help zero_frames_env \<and> check_ok zero_frames_env
   \<and> sint (total_number zero_frames_env) \<le> 0
   \<and> passes_validation zero_frames_env
   \<and> snd (movie_main zero_frames_env) = Returned 0
   \<and> loaded_frames (trace (fst (movie_main zero_frames_env)))
       = [(Left_image, 0), (Right_image, 0)]"
proof -
  have missing: "\<not> has_help zero_frames_missing_env" "check_ok zero_frames_missing_env"
    "sint (total_number zero_frames_missing_env) \<le> 0"
    and unreadable:
      "\<not> readable zero_frames_missing_env (sint (start_number zero_frames_missing_env))"
    and start: "sint (start_number zero_frames_missing_env) = 7"
    by (simp_all add: zero_frames_missing_env_def example_simps)
  have zero: "\<not> has_help zero_frames_env" "check_ok zero_frames_env"
    "sint (total_number zero_frames_env) \<le> 0"
    and valid: "passes_validation zero_frames_env"
    and start0: "sint (start_number zero_frames_env) = 0"
    by (simp_all add: zero_frames_env_def example_simps)
  from movie_zero_frames_still_validates [OF missing] movie_zero_frames_still_validates [OF zero]
    missing unreadable start zero valid start0
  show ?thesis by simp
qed

section \<open>Traces and properties of the benchmark runner\<close>

lemma test_time_body_run:
  assumes "0 \<le> i" and "clock_reads s = nat (2 * i)"
  shows "test_time_body e i (total_us, s) =
     (if i \<ge> 20 then d_add e total_us (d_of_int e (iteration_duration e i)) else total_us,
      \<lparr>trace = trace s @ window_events e i, clock_reads = nat (2 * (i + 1))\<rparr>)"
  using assms
  by (simp add: test_time_body_def now_def emit_def window_events_def iteration_duration_def
      WARMUP_RUNS_def Let_def nat_add_distrib)

lemma test_time_loop_run:
  assumes "0 \<le> i" and "clock_reads (snd acc) = nat (2 * i)"
  shows "test_time_loop e i acc =
     (foldl (d_add e) (fst acc) (map (\<lambda>j. d_of_int e (iteration_duration e j)) [max i 20 .. 69]),
      \<lparr>trace = trace (snd acc) @ concat (map (window_events e) [i .. 69]),
       clock_reads = nat (2 * max i 70)\<rparr>)"
  using assms
proof (induction e i acc rule: test_time_loop.induct)
  case (1 e i acc)
  obtain total_us s where acc: "acc = (total_us, s)" by (cases acc)
  then have parts: "fst acc = total_us" "snd acc = s" by simp_all
  show ?case
  proof (cases "i < 70")
    case False
    from "1.prems" have "s = \<lparr>trace = trace s, clock_reads = nat (2 * i)\<rparr>"
      by (cases s) (simp add: acc)
    with False show ?thesis
      by (simp add: test_time_loop.simps [of e i] WARMUP_RUNS_def MEASUREMENT_RUNS_def max_def acc)
  next
    case True
    then have range: "[i .. 69] = i # [i + 1 .. 69]" by (simp add: upto_rec1)
    from True have enter: "i < WARMUP_RUNS + MEASUREMENT_RUNS"
      by (simp add: WARMUP_RUNS_def MEASUREMENT_RUNS_def)
    have body: "test_time_body e i acc =
       (if i \<ge> 20 then d_add e total_us (d_of_int e (iteration_duration e i)) else total_us,
        \<lparr>trace = trace s @ window_events e i, clock_reads = nat (2 * (i + 1))\<rparr>)"
      using test_time_body_run [of i s e total_us] "1.prems" by (simp add: acc)
    have IH: "test_time_loop e (i + 1) (test_time_body e i acc) =
       (foldl (d_add e) (fst (test_time_body e i acc))
          (map (\<lambda>j. d_of_int e (iteration_duration e j)) [max (i + 1) 20 .. 69]),
        \<lparr>trace = trace (snd (test_time_body e i acc)) @ concat (map (window_events e) [i + 1 .. 69]),
         clock_reads = nat (2 * max (i + 1) 70)\<rparr>)"
      using "1.prems"
      by (intro "1.IH" [OF enter]) (simp_all add: body)
    have unfold: "test_time_loop e i acc = test_time_loop e (i + 1) (test_time_body e i acc)"
      using enter by (simp add: test_time_loop.simps [of e i acc])
    have ranges: "[max i 20 .. 69] = (if i \<ge> 20 then i # [max (i + 1) 20 .. 69]
        else [max (i + 1) 20 .. 69])"
      using True by (simp add: max_def upto_rec1)
    have clock: "nat (2 * max (i + 1) 70) = nat (2 * max i 70)"
      using True by (simp add: max_def)
    show ?thesis
      unfolding unfold IH by (simp add: body parts range ranges clock)
  qed
qed

lemma show_int_runs: "show_int 20 = ''20''" "show_int 50 = ''50''"
  by (simp_all add: show_int_def show_nat.simps digit_char_def)

lemma length_measured_durations: "length (measured_durations e) = 50"
  by (simp add: measured_durations_def)

lemma test_time_main_valid:
  assumes "passes_validation e"
  shows "test_time_main e =
     (\<lparr>trace = test_time_setup_events e
               @ concat (map (window_events e) [0 .. 69])
               @ test_time_result_events (mean_ms e (measured_durations e)),
       clock_reads = 140\<rparr>, Returned 0)"
proof -
  let ?s3 = "\<lparr>trace = test_time_setup_events e, clock_reads = 0\<rparr> :: 'a state"
  have loop: "test_time_loop e 0 (d_of_int e 0, ?s3) =
     (foldl (d_add e) (d_of_int e 0) (map (d_of_int e) (measured_durations e)),
      \<lparr>trace = test_time_setup_events e @ concat (map (window_events e) [0 .. 69]),
       clock_reads = 140\<rparr>)"
    using test_time_loop_run [of 0 "(d_of_int e 0, ?s3)" e]
    by (simp add: measured_durations_def comp_def)
  from assms have main: "test_time_main e =
     (case test_time_loop e 0 (d_of_int e 0, ?s3) of
        (total_duration_us, s4) \<Rightarrow>
          (emit (test_time_result_events
                   (d_div e (d_div e total_duration_us (d_of_int e 50)) (d_of_int e 1000))) s4,
           Returned 0))"
    by (auto simp add: passes_validation_def readable_def compatible_pair_def
        supported_disp_size_def test_time_main_def ASSERT_MSG_def emit_def initial_state_def
        Let_def show_int_runs test_time_setup_events_def test_time_result_events_def
        MEASUREMENT_RUNS_def WARMUP_RUNS_def)
  show ?thesis
    unfolding main loop
    by (simp add: emit_def mean_ms_def length_measured_durations)
qed

lemma executions_windows:
  "length (filter (\<lambda>ev. ev = Execute) (concat (map (window_events e) js))) = length js"
  by (induction js) (simp_all add: window_events_def)

lemma reported_averages_append:
  "reported_averages (xs @ ys) = reported_averages xs @ reported_averages ys"
  by (simp add: reported_averages_def map_filter_append)

lemma reported_averages_windows:
  "reported_averages (concat (map (window_events e) js)) = []"
  by (induction js)
    (simp_all add: reported_averages_append,
     simp_all add: reported_averages_def window_events_def List.map_filter_simps)

lemma upto_warmup_measured: "[0 .. 69] = [0 .. 19] @ [20 .. 69]"
  using upto_split2 [of 0 19 69] by simp

lemma foldl_add_of_int:
  "foldl (+) (a :: 'a :: ring_1) (map of_int ds) = a + of_int (sum_list ds)"
  by (induction ds arbitrary: a) (simp_all add: add.assoc)

lemma mean_ms_exact:
  fixes e :: "('a :: field_char_0) env"
  assumes "d_of_int e = of_int" and "d_add e = (+)" and "d_div e = (/)"
  shows "mean_ms e ds = of_int (sum_list ds) / of_nat (length ds) / 1000"
  by (simp add: mean_ms_def assms foldl_add_of_int)


lemma setup_has_no_timing:
  "Execute \<notin> set (test_time_setup_events e)"
  "Now t \<notin> set (test_time_setup_events e)"
  "reported_averages (test_time_setup_events e) = []"
  by (simp_all add: test_time_setup_events_def reported_averages_def List.map_filter_simps
      Let_def)

text \<open>
  C5.  A benchmark run that passes the validation returns 0.  After a set-up that neither
  calls the engine nor reads the clock, its trace is 20 warm-up iterations, then 50
  measured iterations, then the result lines: the matching call is executed 70 times.
  The one average that is reported is printed with precision 2 and is the mean, in
  milliseconds, of the 50 durations measured in the iterations 20 to 69 (\<open>mean_ms\<close>; by
  \<open>mean_ms_exact\<close> it is their sum divided by 50 and by 1000 when the arithmetic is exact).
\<close>

theorem test_time_seventy_runs:
  fixes e :: "'d env"
  defines "tr \<equiv> trace (fst (test_time_main e))"
  assumes valid: "passes_validation e"
  shows "snd (test_time_main e) = Returned 0
   \<and> (\<exists>setup. tr = setup
          @ concat (map (window_events e) [0 .. 19])
          @ concat (map (window_events e) [20 .. 69])
          @ test_time_result_events (mean_ms e (measured_durations e))
        \<and> Execute \<notin> set setup \<and> (\<forall>t. Now t \<notin> set setup)
        \<and> reported_averages setup = [])
   \<and> length (filter (\<lambda>ev. ev = Execute) tr) = 70
   \<and> reported_averages tr = [(50, 2, mean_ms e (measured_durations e))]
   \<and> measured_durations e =
       map (\<lambda>i. duration_cast_us e (clock e (nat (2 * i + 1)) - clock e (nat (2 * i)))) [20 .. 69]
   \<and> length (measured_durations e) = 50"
proof -
  have tr: "tr = test_time_setup_events e @ concat (map (window_events e) [0 .. 69])
      @ test_time_result_events (mean_ms e (measured_durations e))"
    by (simp add: tr_def test_time_main_valid [OF valid])
  have split: "tr = test_time_setup_events e
          @ concat (map (window_events e) [0 .. 19])
          @ concat (map (window_events e) [20 .. 69])
          @ test_time_result_events (mean_ms e (measured_durations e))"
    unfolding tr upto_warmup_measured by simp
  have shape: "\<exists>setup. tr = setup
          @ concat (map (window_events e) [0 .. 19])
          @ concat (map (window_events e) [20 .. 69])
          @ test_time_result_events (mean_ms e (measured_durations e))
        \<and> Execute \<notin> set setup \<and> (\<forall>t. Now t \<notin> set setup)
        \<and> reported_averages setup = []"
    using split setup_has_no_timing by blast
  have count: "length (filter (\<lambda>ev. ev = Execute) tr) = 70"
    unfolding tr
    by (simp add: executions_windows)
      (simp add: test_time_setup_events_def test_time_result_events_def Let_def)
  have avg: "reported_averages tr = [(50, 2, mean_ms e (measured_durations e))]"
    unfolding tr
    by (simp add: reported_averages_append reported_averages_windows setup_has_no_timing)
      (simp add: reported_averages_def test_time_result_events_def List.map_filter_simps)
  have durations: "measured_durations e =
       map (\<lambda>i. duration_cast_us e (clock e (nat (2 * i + 1)) - clock e (nat (2 * i)))) [20 .. 69]"
    by (simp add: measured_durations_def iteration_duration_def [abs_def])
  have status: "snd (test_time_main e) = Returned 0"
    by (simp add: test_time_main_valid [OF valid])
  from status shape count avg durations length_measured_durations [of e]
  show ?thesis by blast
qed

theorem test_time_seventy_runs_witness:
  "passes_validation example_env
   \<and> snd (test_time_main example_env) = Returned 0
   \<and> length (filter (\<lambda>ev. ev = Execute) (trace (fst (test_time_main example_env)))) = 70
   \<and> reported_averages (trace (fst (test_time_main example_env))) = [(50, 2, 1 / 500)]"
proof -
  have "iteration_duration example_env i = 2" if "0 \<le> i" for i
    using that
    by (simp add: iteration_duration_def example_env_def duration_cast_us_def
        signed_divide_int_def nat_add_distrib nat_mult_distrib algebra_simps)
  then have "measured_durations example_env = map (\<lambda>i. 2) [20 .. 69]"
    by (simp add: measured_durations_def)
  then have "sum_list (measured_durations example_env) = 100"
    by (simp add: sum_list_triv)
  then have "mean_ms example_env (measured_durations example_env) = 1 / 500"
    using mean_ms_exact [of example_env "measured_durations example_env"]
    by (simp add: length_measured_durations example_env_def)
  moreover from test_time_seventy_runs [OF example_env_valid]
  have "snd (test_time_main example_env) = Returned 0"
    and "length (filter (\<lambda>ev. ev = Execute) (trace (fst (test_time_main example_env)))) = 70"
    and "reported_averages (trace (fst (test_time_main example_env)))
      = [(50, 2, mean_ms example_env (measured_durations example_env))]"
    by blast+
  ultimately show ?thesis
    using example_env_valid by simp
qed

section \<open>Validation of disp\_size in both programs\<close>

text \<open>
  C6.  When \<open>disp_size\<close> is none of 64, 128 and 256, neither program constructs the
  engine or allocates a device buffer, and a run that asks for no help ends with
  \<open>EXIT_FAILURE\<close>.  Hence a device buffer is only ever allocated after \<open>disp_size\<close> has
  passed its check.
\<close>

theorem disp_size_rejected_before_allocation:
  assumes "disp_size e \<notin> {64, 128, 256}"
  shows "(\<forall>ev \<in> set (trace (fst (movie_main e))). \<not> is_device_allocation ev)
   \<and> (\<forall>ev \<in> set (trace (fst (test_time_main e))). \<not> is_device_allocation ev)
   \<and> (\<not> has_help e \<longrightarrow>
        snd (movie_main e) = Exited EXIT_FAILURE \<and> snd (test_time_main e) = Exited EXIT_FAILURE)"
  using assms
  by (simp add: movie_main_def test_time_main_def ASSERT_MSG_def emit_def initial_state_def
      Let_def)

theorem disp_size_rejected_before_allocation_witness:
  "disp_size bad_disp_env \<notin> {64, 128, 256} \<and> \<not> has_help bad_disp_env
   \<and> snd (movie_main bad_disp_env) = Exited EXIT_FAILURE
   \<and> snd (test_time_main bad_disp_env) = Exited EXIT_FAILURE
   \<and> filter is_device_allocation (trace (fst (movie_main bad_disp_env))) = []
   \<and> filter is_device_allocation (trace (fst (test_time_main bad_disp_env))) = []"
proof -
  have hyps: "disp_size bad_disp_env \<notin> {64, 128, 256}" "\<not> has_help bad_disp_env"
    by (simp_all add: bad_disp_env_def example_env_def)
  from disp_size_rejected_before_allocation [OF hyps(1)] hyps show ?thesis
    by (simp add: filter_empty_conv)
qed

end
